theory Spec2Isabelle
  imports Complex_Main
begin

section \<open>Errors\<close>

text \<open>
  The Python exceptions that the modelled code can raise.  Two different
  \<open>ValueError\<close>s are kept apart: the one of \<open>int(pieces[0])\<close> on a string that is
  not an integer literal, and the one of unpacking an iterable of the wrong length into
  two names.
\<close>

datatype error =
    ValueError_b_dec_init_method
  | ValueError_invalid_literal
  | ValueError_unpack
  | AttributeError
  | ZeroDivisionError
  | FileNotFoundError
  | RuntimeError
  | InterruptedException

section \<open>Configuration (config.py)\<close>

text \<open>
  The fields of \<open>LanguageModelSAERunnerConfig\<close> that the training loop, the checkpoint
  code and the validation in \<open>__post_init__\<close> read.  \<open>sae_name\<close> stands for the value
  of \<open>get_name()\<close>, a string built from the model name, the hook point and \<open>d_sae\<close>.
\<close>

record config =
  b_dec_init_method :: string
  d_in :: int
  expansion_factor :: int
  d_sae :: "int option"
  total_training_tokens :: int
  train_batch_size :: int
  feature_sampling_window :: int
  dead_feature_window :: int
  lr_scheduler_name :: string
  log_to_wandb :: bool
  wandb_id :: "string option"
  wandb_log_frequency :: int
  checkpoint_every :: int
  checkpoint_path :: string
  max_checkpoints :: "int option"
  verbose :: bool
  resume :: bool
  sae_name :: string

text \<open>The dataclass defaults of config.py (\<open>sae_name\<close> as \<open>get_name()\<close> gives it).\<close>

definition default_config :: config where
  "default_config =
     \<lparr> b_dec_init_method = ''geometric_median'',
       d_in = 512,
       expansion_factor = 4,
       d_sae = None,
       total_training_tokens = 2000000,
       train_batch_size = 4096,
       feature_sampling_window = 2000,
       dead_feature_window = 1000,
       lr_scheduler_name = ''constant'',
       log_to_wandb = True,
       wandb_id = None,
       wandb_log_frequency = 10,
       checkpoint_every = 0,
       checkpoint_path = ''checkpoints'',
       max_checkpoints = None,
       verbose = True,
       resume = False,
       sae_name = ''sae_group_gelu-2l_blocks.0.hook_mlp_out_2048'' \<rparr>"

text \<open>
  Python's \<open>a // b\<close> on integers: floor division, \<open>ZeroDivisionError\<close> when \<open>b = 0\<close>.
  \<open>div\<close> on \<open>int\<close> is floor division as well.
\<close>

definition py_floordiv :: "int \<Rightarrow> int \<Rightarrow> error + int" where
  "py_floordiv a b = (if b = 0 then Inl ZeroDivisionError else Inr (a div b))"

text \<open>Python's \<open>a % b\<close> on integers: the sign follows the divisor, as \<open>mod\<close> on \<open>int\<close>.\<close>

definition py_mod :: "int \<Rightarrow> int \<Rightarrow> error + int" where
  "py_mod a b = (if b = 0 then Inl ZeroDivisionError else Inr (a mod b))"


section \<open>Strings and file names (config.py)\<close>

text \<open>\<open>s.split("_")\<close>: the pieces between underscores; never the empty list.\<close>

fun split_underscore :: "string \<Rightarrow> string list" where
  "split_underscore [] = [ [] ]"
| "split_underscore (c # cs) =
     (if c = CHR ''_'' then [] # split_underscore cs
      else (case split_underscore cs of
              [] \<Rightarrow> [ [c] ]
            | p # ps \<Rightarrow> (c # p) # ps))"

text \<open>The white space that \<open>int()\<close> strips from both ends (ASCII file names).\<close>

definition is_space :: "char \<Rightarrow> bool" where
  "is_space c = (c \<in> set [CHR '' '', CHR 0x09, CHR 0x0A, CHR 0x0B, CHR 0x0C, CHR 0x0D,
                           CHR 0x1C, CHR 0x1D, CHR 0x1E, CHR 0x1F])"

definition strip :: "string \<Rightarrow> string" where
  "strip s = rev (dropWhile is_space (rev (dropWhile is_space s)))"

definition digit_chars :: string where
  "digit_chars = ''0123456789''"

definition is_digit :: "char \<Rightarrow> bool" where
  "is_digit c = (c \<in> set digit_chars)"

definition digit_value :: "char \<Rightarrow> nat" where
  "digit_value c = length (takeWhile (\<lambda>d. d \<noteq> c) digit_chars)"

definition digits_value :: "string \<Rightarrow> nat" where
  "digits_value ds = foldl (\<lambda>acc d. 10 * acc + digit_value d) 0 ds"

text \<open>
  \<open>int(s)\<close> for a string without underscores (a piece of \<open>split("_")\<close> has none):
  white space stripped, one optional sign, then at least one decimal digit and nothing
  else; \<open>None\<close> stands for the \<open>ValueError\<close>.
\<close>

definition py_int :: "string \<Rightarrow> int option" where
  "py_int s =
     (case strip s of
        [] \<Rightarrow> None
      | c # r \<Rightarrow>
          (let neg = (c = CHR ''-'');
               ds = (if c = CHR ''-'' \<or> c = CHR ''+'' then r else c # r)
           in if ds \<noteq> [] \<and> list_all is_digit ds
              then Some (if neg then - int (digits_value ds) else int (digits_value ds))
              else None))"

text \<open>\<open>str(n)\<close> for an integer: decimal digits, a minus sign when negative.\<close>

fun digits_of :: "nat \<Rightarrow> string" where
  "digits_of n =
     (if n < 10 then [digit_chars ! n]
      else digits_of (n div 10) @ [digit_chars ! (n mod 10)])"

declare digits_of.simps [simp del]

definition py_str :: "int \<Rightarrow> string" where
  "py_str i = (if i < 0 then CHR ''-'' # digits_of (nat (- i)) else digits_of (nat i))"

text \<open>\<open>s.startswith(p)\<close>.\<close>

definition startswith :: "string \<Rightarrow> string \<Rightarrow> bool" where
  "startswith s p = (take (length p) s = p)"

text \<open>\<open>os.path.join(a, b)\<close> on POSIX for two components.\<close>

definition os_path_join :: "string \<Rightarrow> string \<Rightarrow> string" where
  "os_path_join a b =
     (if b \<noteq> [] \<and> hd b = CHR ''/'' then b
      else if a = [] \<or> last a = CHR ''/'' then a @ b
      else a @ ''/'' @ b)"

text \<open>
  A checkpoint label is an integer token count or a string (\<open>checkpoint_name: int | str\<close>);
  an f-string renders it with \<open>str\<close>.
\<close>

datatype label = IntLabel int | StrLabel string

fun label_str :: "label \<Rightarrow> string" where
  "label_str (IntLabel i) = py_str i"
| "label_str (StrLabel s) = s"

text \<open>\<open>get_base_path\<close>: \<open>f"{checkpoint_path}/{checkpoint_name}_{get_name()}"\<close>.\<close>

definition get_base_path :: "config \<Rightarrow> label \<Rightarrow> string" where
  "get_base_path c l = checkpoint_path c @ ''/'' @ label_str l @ ''_'' @ sae_name c"

text \<open>
  The checkpoint directory: \<open>None\<close> when it does not exist, otherwise its entries in
  the order \<open>os.listdir\<close> returns them, each with the answer of \<open>os.path.isfile\<close>.
\<close>

type_synonym directory = "(string \<times> bool) list option"

text \<open>
  A \<open>defaultdict(list)\<close> keyed by step: an association list in insertion order.
  \<open>mapped[k].append(v)\<close> creates the key when it is missing.
\<close>

type_synonym step_map = "(int \<times> string list) list"

fun dict_append :: "step_map \<Rightarrow> int \<Rightarrow> string \<Rightarrow> step_map" where
  "dict_append [] k v = [(k, [v])]"
| "dict_append ((k', vs) # m) k v =
     (if k' = k then (k', vs @ [v]) # m else (k', vs) # dict_append m k v)"

text \<open>
  The loop of \<open>get_checkpoints_by_step\<close> over the file names: \<open>int(pieces[0])\<close> raises
  on the first name whose leading piece is not an integer literal; a file of another
  autoencoder (its path does not start with this one's base path) is skipped.
\<close>

fun map_steps :: "config \<Rightarrow> string list \<Rightarrow> step_map \<Rightarrow> error + step_map" where
  "map_steps cfg [] m = Inr m"
| "map_steps cfg (c # cs) m =
     (case py_int (hd (split_underscore c)) of
        None \<Rightarrow> Inl ValueError_invalid_literal
      | Some steps \<Rightarrow>
          (let full_path = os_path_join (checkpoint_path cfg) c in
           if startswith full_path (get_base_path cfg (IntLabel steps))
           then map_steps cfg cs (dict_append m steps full_path)
           else map_steps cfg cs m))"

definition get_checkpoints_by_step :: "config \<Rightarrow> directory \<Rightarrow> error + step_map" where
  "get_checkpoints_by_step cfg dir =
     (case dir of
        None \<Rightarrow> Inl FileNotFoundError
      | Some entries \<Rightarrow> map_steps cfg (map fst (filter snd entries)) [])"

text \<open>\<open>max\<close> of a non-empty list of integers.\<close>

definition max_list :: "int list \<Rightarrow> int" where
  "max_list ks = foldl max (hd ks) (tl ks)"

text \<open>
  \<open>get_resume_base_path\<close>: \<open>FileNotFoundError\<close> when no checkpoint is listed, otherwise
  the base path of the largest step.  An exception of \<open>get_checkpoints_by_step\<close>
  passes through.
\<close>

definition get_resume_base_path :: "config \<Rightarrow> directory \<Rightarrow> error + string" where
  "get_resume_base_path cfg dir =
     (case get_checkpoints_by_step cfg dir of
        Inl e \<Rightarrow> Inl e
      | Inr mapped_to_steps \<Rightarrow>
          if length mapped_to_steps = 0 then Inl FileNotFoundError
          else Inr (get_base_path cfg (IntLabel (max_list (map fst mapped_to_steps)))))"

text \<open>
  \<open>remove_excess_checkpoints\<close> (train_sae_on_language_model.py).  Its first statement
  unpacks the returned dictionary into two names, \<open>checkpoints, is_done\<close>: unpacking
  iterates the keys, and raises \<open>ValueError\<close> unless there are exactly two.  With two
  keys \<open>checkpoints\<close> is bound to the first key, an \<open>int\<close>, and the next statement's
  \<open>checkpoints.keys()\<close> raises \<open>AttributeError\<close>.  No path reaches the sorting and
  the removal of files that follow: the function removes nothing and never returns.
\<close>

definition remove_excess_checkpoints :: "config \<Rightarrow> directory \<Rightarrow> error + unit" where
  "remove_excess_checkpoints cfg dir =
     (case get_checkpoints_by_step cfg dir of
        Inl e \<Rightarrow> Inl e
      | Inr mapped_to_steps \<Rightarrow>
          if length mapped_to_steps \<noteq> 2 then Inl ValueError_unpack
          else Inl AttributeError)"

section \<open>Train context and training step (train_sae_on_language_model.py)\<close>

text \<open>
  \<open>SAETrainContext\<close>.  The two tensors hold one count per unit; the optimizer and
  the scheduler are external objects, kept here as the number of steps each has taken.
\<close>

record train_context =
  act_freq_scores :: "int list"
  n_forward_passes_since_fired :: "int list"
  n_frac_active_tokens :: int
  optimizer :: nat
  scheduler :: nat

text \<open>
  The result of a floating-point division of a count by an integer: torch does not raise
  on a zero denominator, it gives \<open>nan\<close> for \<open>0/0\<close> and an infinity otherwise.
\<close>

datatype fval = Finite real | PosInf | NegInf | NaN

definition tensor_div :: "int \<Rightarrow> int \<Rightarrow> fval" where
  "tensor_div a d =
     (if d = 0 then (if a = 0 then NaN else if 0 < a then PosInf else NegInf)
      else Finite (real_of_int a / real_of_int d))"

text \<open>The property \<open>feature_sparsity\<close>: \<open>act_freq_scores / n_frac_active_tokens\<close>.\<close>

definition feature_sparsity :: "train_context \<Rightarrow> fval list" where
  "feature_sparsity ctx =
     map (\<lambda>a. tensor_div a (n_frac_active_tokens ctx)) (act_freq_scores ctx)"

text \<open>
  What the step reads of one autoencoder's configuration: \<open>cfg.d_sae\<close> and
  \<open>cfg.dead_feature_window\<close>.
\<close>

record sae =
  sae_d_sae :: nat
  sae_dead_feature_window :: int

text \<open>
  \<open>_build_train_context\<close>: zero tensors of length \<open>d_sae\<close>, a zero denominator, and
  an optimizer and a scheduler (built by external code) that have taken no step.
\<close>

definition build_train_context :: "sae \<Rightarrow> train_context" where
  "build_train_context s =
     \<lparr> act_freq_scores = replicate (sae_d_sae s) 0,
       n_forward_passes_since_fired = replicate (sae_d_sae s) 0,
       n_frac_active_tokens = 0,
       optimizer = 0,
       scheduler = 0 \<rparr>"

text \<open>
  Lines 373 to 397 of \<open>_train_step\<close>: when \<open>(n_training_steps + 1) % feature_sampling_window\<close>
  is zero, the local \<open>feature_sparsity\<close> is read from the context (and reported when
  \<open>use_wandb\<close>), then the two accumulators are replaced by zeros.  The first component of
  the result is that local, \<open>None\<close> when the branch is not taken.
\<close>

definition sparsity_window ::
  "sae \<Rightarrow> train_context \<Rightarrow> int \<Rightarrow> int \<Rightarrow> error + (fval list option \<times> train_context)" where
  "sparsity_window s ctx fsw n =
     (case py_mod (n + 1) fsw of
        Inl e \<Rightarrow> Inl e
      | Inr r \<Rightarrow>
          if r = 0
          then Inr (Some (feature_sparsity ctx),
                    ctx\<lparr> act_freq_scores := replicate (sae_d_sae s) 0,
                         n_frac_active_tokens := 0 \<rparr>)
          else Inr (None, ctx))"

text \<open>
  \<open>(feature_acts > 0).float().sum(-2) > 0\<close>: unit \<open>j\<close> fired when some row of the batch has
  a positive activation in column \<open>j\<close>.  \<open>feature_acts\<close> is a list of rows, each of the
  width \<open>d\<close> of the counters.
\<close>

definition did_fire :: "real list list \<Rightarrow> nat \<Rightarrow> bool list" where
  "did_fire feature_acts d = map (\<lambda>j. list_ex (\<lambda>row. 0 < row ! j) feature_acts) [0..<d]"

text \<open>\<open>(feature_acts.abs() > 0).float().sum(0)\<close>: per unit, the rows where it is non-zero.\<close>

definition active_counts :: "real list list \<Rightarrow> nat \<Rightarrow> int list" where
  "active_counts feature_acts d =
     map (\<lambda>j. int (length (filter (\<lambda>row. 0 < \<bar>row ! j\<bar>) feature_acts))) [0..<d]"

text \<open>
  \<open>TrainStepOutput\<close>, without the losses: the activations, the dead-unit mask given to
  the forward pass, and the sparsity read at a window boundary.
\<close>

record train_step_output =
  feature_acts :: "real list list"
  ghost_grad_neuron_mask :: "bool list"
  window_feature_sparsity :: "fval list option"

text \<open>
  \<open>_train_step\<close>.  \<open>forward\<close> is the autoencoder's forward pass on this batch, from the
  dead-unit mask to the unit activations.  In the source's order: the window block, the
  mask from the counters, the forward pass, the counters incremented and then zeroed
  where the unit fired, the accumulators, the optimizer and scheduler steps.
\<close>

definition train_step ::
  "sae \<Rightarrow> (bool list \<Rightarrow> real list list) \<Rightarrow> train_context \<Rightarrow> int \<Rightarrow> int \<Rightarrow> int
     \<Rightarrow> error + (train_context \<times> train_step_output)" where
  "train_step s forward ctx fsw n batch_size =
     (case sparsity_window s ctx fsw n of
        Inl e \<Rightarrow> Inl e
      | Inr (sparsity, ctx1) \<Rightarrow>
          (let mask = map (\<lambda>c. sae_dead_feature_window s < c) (n_forward_passes_since_fired ctx1);
               acts = forward mask;
               d = length (n_forward_passes_since_fired ctx1);
               fired = did_fire acts d;
               ctx2 = ctx1\<lparr> n_forward_passes_since_fired :=
                              map2 (\<lambda>c f. if f then 0 else c + 1)
                                (n_forward_passes_since_fired ctx1) fired \<rparr>;
               ctx3 = ctx2\<lparr> act_freq_scores :=
                              map2 (+) (act_freq_scores ctx2)
                                (active_counts acts (length (act_freq_scores ctx2))),
                            n_frac_active_tokens := n_frac_active_tokens ctx2 + batch_size \<rparr>;
               ctx4 = ctx3\<lparr> optimizer := Suc (optimizer ctx3),
                            scheduler := Suc (scheduler ctx3) \<rparr>
           in Inr (ctx4, \<lparr> feature_acts = acts,
                           ghost_grad_neuron_mask = mask,
                           window_feature_sparsity = sparsity \<rparr>)))"

section \<open>Random generator state (SAETrainingRunState)\<close>

text \<open>
  A generator state is an opaque block of numbers.  The process holds one state for
  torch, one per CUDA device, one for numpy and one for Python's \<open>random\<close>.
\<close>

type_synonym rng = "nat list"

record process_rng =
  g_torch :: rng
  g_cuda :: "rng list"
  g_numpy :: rng
  g_random :: rng

text \<open>\<open>SAETrainingRunState\<close>; an \<open>Optional\<close> field is an \<open>option\<close>.\<close>

record training_run_state =
  train_contexts :: "train_context list"
  n_training_steps :: int
  n_training_tokens :: int
  torch_state :: "rng option"
  torch_cuda_state :: "rng list option"
  numpy_state :: "rng option"
  random_state :: "rng option"

text \<open>\<open>__post_init__\<close>: each generator state that is \<open>None\<close> is read from the process.\<close>

definition run_state_post_init :: "process_rng \<Rightarrow> training_run_state \<Rightarrow> training_run_state" where
  "run_state_post_init g rs =
     rs\<lparr> torch_state := (case torch_state rs of None \<Rightarrow> Some (g_torch g) | Some t \<Rightarrow> Some t),
         torch_cuda_state :=
           (case torch_cuda_state rs of None \<Rightarrow> Some (g_cuda g) | Some t \<Rightarrow> Some t),
         numpy_state := (case numpy_state rs of None \<Rightarrow> Some (g_numpy g) | Some t \<Rightarrow> Some t),
         random_state := (case random_state rs of None \<Rightarrow> Some (g_random g) | Some t \<Rightarrow> Some t) \<rparr>"

text \<open>
  The run state that \<open>_save_checkpoint\<close> builds and pickles (lines 566 to 574): the
  three progress fields are given, the generator states are left to \<open>__post_init__\<close>.
\<close>

definition checkpoint_run_state ::
  "process_rng \<Rightarrow> train_context list \<Rightarrow> int \<Rightarrow> int \<Rightarrow> training_run_state" where
  "checkpoint_run_state g ctxs steps tokens =
     run_state_post_init g
       \<lparr> train_contexts = ctxs, n_training_steps = steps, n_training_tokens = tokens,
         torch_state = None, torch_cuda_state = None, numpy_state = None,
         random_state = None \<rparr>"

text \<open>
  \<open>torch.cuda.set_rng_state_all\<close> sets device \<open>i\<close> to the \<open>i\<close>-th saved state; a saved
  state for a device the process does not have is an error (\<open>None\<close>).
\<close>

definition set_rng_state_all :: "rng list \<Rightarrow> rng list \<Rightarrow> rng list option" where
  "set_rng_state_all saved current =
     (if length current < length saved then None
      else Some (saved @ drop (length saved) current))"

text \<open>
  \<open>set_random_state\<close>: the four setters in the source's order; \<open>None\<close> when a field is
  \<open>None\<close> or the CUDA states do not fit the devices.
\<close>

definition set_random_state :: "training_run_state \<Rightarrow> process_rng \<Rightarrow> process_rng option" where
  "set_random_state rs g =
     (case torch_state rs of
        None \<Rightarrow> None
      | Some t \<Rightarrow>
         (case torch_cuda_state rs of
            None \<Rightarrow> None
          | Some cs \<Rightarrow>
             (case set_rng_state_all cs (g_cuda g) of
                None \<Rightarrow> None
              | Some cuda \<Rightarrow>
                 (case numpy_state rs of
                    None \<Rightarrow> None
                  | Some n \<Rightarrow>
                     (case random_state rs of
                        None \<Rightarrow> None
                      | Some r \<Rightarrow>
                          Some \<lparr> g_torch = t, g_cuda = cuda, g_numpy = n, g_random = r \<rparr>)))))"

text \<open>
  \<open>k\<close> consecutive draws from a generator whose step function is \<open>next\<close>: the values
  drawn and the state left behind.
\<close>

fun draws :: "(rng \<Rightarrow> 'v \<times> rng) \<Rightarrow> nat \<Rightarrow> rng \<Rightarrow> 'v list \<times> rng" where
  "draws next 0 st = ([], st)"
| "draws next (Suc k) st =
     (case next st of (v, st') \<Rightarrow> (case draws next k st' of (vs, st'') \<Rightarrow> (v # vs, st'')))"

text \<open>
  Draws from the whole process: \<open>k\<close> values from torch, from every CUDA device, from
  numpy and from \<open>random\<close>.
\<close>

definition process_draws ::
  "(rng \<Rightarrow> 'v \<times> rng) \<Rightarrow> (rng \<Rightarrow> 'v \<times> rng) \<Rightarrow> (rng \<Rightarrow> 'v \<times> rng) \<Rightarrow> (rng \<Rightarrow> 'v \<times> rng)
     \<Rightarrow> nat \<Rightarrow> process_rng \<Rightarrow> 'v list \<times> 'v list list \<times> 'v list \<times> 'v list" where
  "process_draws next_torch next_cuda next_numpy next_random k g =
     (fst (draws next_torch k (g_torch g)),
      map (\<lambda>st. fst (draws next_cuda k st)) (g_cuda g),
      fst (draws next_numpy k (g_numpy g)),
      fst (draws next_random k (g_random g)))"

section \<open>Saving a checkpoint\<close>

text \<open>
  Writing a file at \<open>file_path\<close> below the checkpoint directory: its name (the path after
  \<open>checkpoint_path/\<close>) is listed afterwards, once; the directory is created when it is
  missing, as \<open>SAEGroup.save_model\<close>, the first writer, does.  Labels and \<open>sae_name\<close>
  hold no \<open>/\<close>.
\<close>

definition write_file :: "config \<Rightarrow> directory \<Rightarrow> string \<Rightarrow> directory" where
  "write_file cfg dir file_path =
     (let name = drop (length (checkpoint_path cfg) + 1) file_path in
      case dir of
        None \<Rightarrow> Some [(name, True)]
      | Some entries \<Rightarrow>
          if (name, True) \<in> set entries then Some entries
          else Some (entries @ [(name, True)]))"

definition SAVE_POSTFIX_SAE_GROUP :: string where
  "SAVE_POSTFIX_SAE_GROUP = []"

definition SAVE_POSTFIX_LOG_FEATURE_SPARSITY :: string where
  "SAVE_POSTFIX_LOG_FEATURE_SPARSITY = ''_log_feature_sparsity''"

definition SAVE_POSTFIX_ACTIVATION_STORE :: string where
  "SAVE_POSTFIX_ACTIVATION_STORE = ''_activation_store''"

definition SAVE_POSTFIX_TRAINING_STATE :: string where
  "SAVE_POSTFIX_TRAINING_STATE = ''_trainining_state''"

text \<open>
  \<open>SaveCheckpointOutput\<close>.  \<open>log_feature_sparsities\<close> holds, per context, the
  \<open>feature_sparsity\<close> that was read; the elementwise \<open>log10(x + eps)\<close> of the source
  is a floating-point map applied to it and is not computed here.
\<close>

record save_checkpoint_output =
  path :: string
  activation_store_path :: string
  training_run_state_path :: string
  log_feature_sparsity_path :: string
  log_feature_sparsities :: "fval list list"

text \<open>
  \<open>_save_checkpoint\<close>: four files are written under the base path of the label, then
  \<open>remove_excess_checkpoints\<close> runs on the directory as it is now, and only then the
  output is returned.  An exception carries the directory it leaves behind.
\<close>

definition save_checkpoint ::
  "config \<Rightarrow> directory \<Rightarrow> train_context list \<Rightarrow> label
     \<Rightarrow> (error \<times> directory) + (save_checkpoint_output \<times> directory)" where
  "save_checkpoint cfg dir ctxs checkpoint_name =
     (let base_path = get_base_path cfg checkpoint_name;
          model_path = base_path @ SAVE_POSTFIX_SAE_GROUP @ ''.pt'';
          dir1 = write_file cfg dir model_path;
          sparsity_path = base_path @ SAVE_POSTFIX_LOG_FEATURE_SPARSITY @ ''.pt'';
          sparsities = map feature_sparsity ctxs;
          dir2 = write_file cfg dir1 sparsity_path;
          store_path = base_path @ SAVE_POSTFIX_ACTIVATION_STORE @ ''.pt'';
          dir3 = write_file cfg dir2 store_path;
          state_path = base_path @ SAVE_POSTFIX_TRAINING_STATE @ ''.pt'';
          dir4 = write_file cfg dir3 state_path
      in case remove_excess_checkpoints cfg dir4 of
           Inl e \<Rightarrow> Inl (e, dir4)
         | Inr u \<Rightarrow>
             Inr (\<lparr> path = model_path,
                    activation_store_path = store_path,
                    training_run_state_path = state_path,
                    log_feature_sparsity_path = sparsity_path,
                    log_feature_sparsities = sparsities \<rparr>, dir4))"

section \<open>The group training loop\<close>

text \<open>
  The arguments of \<open>train_sae_group_on_language_model\<close> and its two external inputs.
  \<open>p_forward n i\<close> is the forward pass of the \<open>i\<close>-th autoencoder on the batch pulled
  when \<open>n_training_steps\<close> is \<open>n\<close>.  \<open>p_interrupt n\<close> says that SIGINT or SIGTERM arrives
  while \<open>activation_store.next_batch()\<close> is pulling that batch, which makes the
  installed handler raise \<open>InterruptedException\<close> there.
\<close>

record params =
  p_cfg :: config
  p_saes :: "sae list"
  p_forward :: "int \<Rightarrow> nat \<Rightarrow> bool list \<Rightarrow> real list list"
  p_interrupt :: "int \<Rightarrow> bool"
  p_batch_size :: int
  p_feature_sampling_window :: int
  p_use_wandb :: bool
  p_wandb_log_frequency :: int

text \<open>
  The locals of the function that change while it runs, with the checkpoint directory
  and the lines printed so far.
\<close>

record locals =
  l_train_contexts :: "train_context list"
  l_n_training_steps :: int
  l_n_training_tokens :: int
  l_checkpoint_paths :: "string list"
  files :: directory
  printed :: "string list"

text \<open>
  The inner \<open>for\<close> over \<open>zip(sae_group, train_contexts)\<close>, from the \<open>i\<close>-th pair on: each
  context is replaced by the one its step leaves; with \<open>use_wandb\<close> the logging test
  \<open>(n_training_steps + 1) % wandb_log_frequency\<close> follows each step.  Contexts beyond
  the shorter list are not touched.  An exception carries the contexts as they are.
\<close>

fun train_group ::
  "params \<Rightarrow> int \<Rightarrow> nat \<Rightarrow> sae list \<Rightarrow> train_context list
     \<Rightarrow> (error \<times> train_context list) + train_context list" where
  "train_group P n i [] ctxs = Inr ctxs"
| "train_group P n i (s # ss) [] = Inr []"
| "train_group P n i (s # ss) (ctx # ctxs) =
     (case train_step s (p_forward P n i) ctx (p_feature_sampling_window P) n (p_batch_size P) of
        Inl e \<Rightarrow> Inl (e, ctx # ctxs)
      | Inr (ctx', step_output) \<Rightarrow>
          (case (if p_use_wandb P then py_mod (n + 1) (p_wandb_log_frequency P) else Inr 0) of
             Inl e \<Rightarrow> Inl (e, ctx' # ctxs)
           | Inr r \<Rightarrow>
               (case train_group P n (Suc i) ss ctxs of
                  Inl (e, ctxs') \<Rightarrow> Inl (e, ctx' # ctxs')
                | Inr ctxs' \<Rightarrow> Inr (ctx' # ctxs'))))"

text \<open>
  One pass through the body of the \<open>while\<close> (lines 157 to 227): the batch is pulled,
  the token counter advanced, every autoencoder stepped; then the checkpoint test
  \<open>n_training_steps % checkpoint_every == 0\<close> and, when it holds, a save labelled with
  the token count, whose path is bound to a local and not appended to
  \<open>checkpoint_paths\<close>; then the step counter is advanced and the progress line
  formatted, where \<open>torch.stack\<close> of the losses raises \<open>RuntimeError\<close> when no
  autoencoder was stepped.
\<close>

definition after_checkpoint :: "params \<Rightarrow> locals \<Rightarrow> (error \<times> locals) + locals" where
  "after_checkpoint P l =
     (let l' = l\<lparr> l_n_training_steps := l_n_training_steps l + 1 \<rparr> in
      if p_saes P = [] \<or> l_train_contexts l' = [] then Inl (RuntimeError, l')
      else Inr l')"

definition loop_body :: "params \<Rightarrow> locals \<Rightarrow> (error \<times> locals) + locals" where
  "loop_body P l =
     (if p_interrupt P (l_n_training_steps l) then Inl (InterruptedException, l)
      else
        let l1 = l\<lparr> l_n_training_tokens := l_n_training_tokens l + p_batch_size P \<rparr> in
        case train_group P (l_n_training_steps l1) 0 (p_saes P) (l_train_contexts l1) of
          Inl (e, ctxs) \<Rightarrow> Inl (e, l1\<lparr> l_train_contexts := ctxs \<rparr>)
        | Inr ctxs \<Rightarrow>
            (let l2 = l1\<lparr> l_train_contexts := ctxs \<rparr> in
             case py_mod (l_n_training_steps l2) (checkpoint_every (p_cfg P)) of
               Inl e \<Rightarrow> Inl (e, l2)
             | Inr r \<Rightarrow>
                 if r = 0
                 then (case save_checkpoint (p_cfg P) (files l2) (l_train_contexts l2)
                              (IntLabel (l_n_training_tokens l2)) of
                         Inl (e, dir) \<Rightarrow> Inl (e, l2\<lparr> files := dir \<rparr>)
                       | Inr (out, dir) \<Rightarrow> after_checkpoint P (l2\<lparr> files := dir \<rparr>))
                 else after_checkpoint P l2))"

text \<open>
  \<open>while n_training_tokens < total_training_tokens\<close>.  The loop need not end (a batch
  size that is not positive never reaches the budget), so not returning is \<open>None\<close>.
\<close>

partial_function (option) training_loop ::
  "params \<Rightarrow> locals \<Rightarrow> ((error \<times> locals) + locals) option" where
  "training_loop P l =
     (if l_n_training_tokens l < total_training_tokens (p_cfg P)
      then (case loop_body P l of
              Inl el \<Rightarrow> Some (Inl el)
            | Inr l' \<Rightarrow> training_loop P l')
      else Some (Inr l))"

text \<open>
  The \<open>except (KeyboardInterrupt, InterruptedException)\<close> clause: a line is printed, a
  checkpoint labelled with the current token count is saved, a second line is printed,
  and the bare \<open>raise\<close> passes the interruption on.  An exception of the save leaves
  the clause at once.  The result is the exception that leaves the function.
\<close>

definition interrupted :: "params \<Rightarrow> locals \<Rightarrow> error \<times> locals" where
  "interrupted P l =
     (let l1 = l\<lparr> printed := printed l @ [''interrupted, saving progress''] \<rparr> in
      case save_checkpoint (p_cfg P) (files l1) (l_train_contexts l1)
             (IntLabel (l_n_training_tokens l1)) of
        Inl (e, dir) \<Rightarrow> (e, l1\<lparr> files := dir \<rparr>)
      | Inr (out, dir) \<Rightarrow>
          (InterruptedException,
           l1\<lparr> files := dir, printed := printed l1 @ [''done saving''] \<rparr>))"

text \<open>
  \<open>TrainSAEGroupOutput\<close>: the group (its autoencoders; the weights are not modelled),
  the checkpoint paths and the sparsity snapshot of the final save.
\<close>

record train_sae_group_output =
  sae_group :: "sae list"
  checkpoint_paths :: "string list"
  final_log_feature_sparsities :: "fval list list"

text \<open>
  Lines 242 to 258: the save labelled \<open>final_<tokens>\<close>, its path appended to
  \<open>checkpoint_paths\<close>, and the output.
\<close>

definition final_save :: "params \<Rightarrow> locals \<Rightarrow> (error \<times> locals) + (train_sae_group_output \<times> locals)" where
  "final_save P l =
     (case save_checkpoint (p_cfg P) (files l) (l_train_contexts l)
             (StrLabel (''final_'' @ py_str (l_n_training_tokens l))) of
        Inl (e, dir) \<Rightarrow> Inl (e, l\<lparr> files := dir \<rparr>)
      | Inr (final_checkpoint, dir) \<Rightarrow>
          (let l1 = l\<lparr> files := dir,
                       l_checkpoint_paths := l_checkpoint_paths l @ [path final_checkpoint] \<rparr>
           in Inr (\<lparr> sae_group = p_saes P,
                      checkpoint_paths = l_checkpoint_paths l1,
                      final_log_feature_sparsities = log_feature_sparsities final_checkpoint \<rparr>,
                   l1)))"

text \<open>
  \<open>train_sae_group_on_language_model\<close>, given the run state passed in (if any) and the
  checkpoint directory at the start.  \<open>total_training_tokens // batch_size\<close> comes
  first; the contexts are built fresh or taken from the run state; with \<open>cfg.resume\<close>
  the generator states of the run state are restored, which fails on \<open>None\<close>.  Then the
  loop inside \<open>try\<close>, the \<open>except\<close> clause for an interruption, and the final save.
  The decoder-bias initialisation and the progress bar are left out.
\<close>

definition train_sae_group_on_language_model ::
  "params \<Rightarrow> training_run_state option \<Rightarrow> directory
     \<Rightarrow> ((error \<times> locals) + (train_sae_group_output \<times> locals)) option" where
  "train_sae_group_on_language_model P run_state dir =
     (let l0 = \<lparr> l_train_contexts = [], l_n_training_steps = 0, l_n_training_tokens = 0,
                 l_checkpoint_paths = [], files = dir, printed = [] \<rparr> in
      case py_floordiv (total_training_tokens (p_cfg P)) (p_batch_size P) of
        Inl e \<Rightarrow> Some (Inl (e, l0))
      | Inr total_training_steps \<Rightarrow>
          (let l1 = (case run_state of
                       None \<Rightarrow> l0\<lparr> l_train_contexts := map build_train_context (p_saes P) \<rparr>
                     | Some rs \<Rightarrow>
                         l0\<lparr> l_train_contexts := train_contexts rs,
                             l_n_training_tokens := n_training_tokens rs,
                             l_n_training_steps := n_training_steps rs,
                             printed :=
                               (if resume (p_cfg P) then []
                                else [''warning: you are passing in training run state but resume=False, is that intended?'']) \<rparr>)
           in if resume (p_cfg P) \<and> run_state = None then Some (Inl (AttributeError, l1))
              else
                (case training_loop P l1 of
                   None \<Rightarrow> None
                 | Some (Inl (e, l2)) \<Rightarrow>
                     if e = InterruptedException then Some (Inl (interrupted P l2))
                     else Some (Inl (e, l2))
                 | Some (Inr l2) \<Rightarrow> Some (final_save P l2))))"

section \<open>Consecutive steps of one autoencoder\<close>


section \<open>Concrete runs\<close>

text \<open>An autoencoder with two units and the default dead-feature window.\<close>

definition unit_sae :: sae where
  "unit_sae = \<lparr> sae_d_sae = 2, sae_dead_feature_window = 1000 \<rparr>"

text \<open>A forward pass whose batch has one row: the first unit is active, the second not.\<close>

definition first_unit_fires :: "bool list \<Rightarrow> real list list" where
  "first_unit_fires dead_units = [ [1, 0] ]"

text \<open>
  The end-to-end run of the spec: budget 1000, batch size 100, a checkpoint every 5
  steps; the other fields are the defaults, the run identifier is \<open>run1\<close>.
\<close>

definition end_to_end_cfg :: config where
  "end_to_end_cfg =
     default_config\<lparr> d_in := 1, expansion_factor := 2, d_sae := Some 2,
       total_training_tokens := 1000, train_batch_size := 100, checkpoint_every := 5,
       checkpoint_path := ''checkpoints/run1'',
       sae_name := ''sae_group_gelu-2l_blocks.0.hook_mlp_out_2'' \<rparr>"

definition end_to_end_params :: params where
  "end_to_end_params =
     \<lparr> p_cfg = end_to_end_cfg, p_saes = [unit_sae],
       p_forward = (\<lambda>n i. first_unit_fires), p_interrupt = (\<lambda>n. False),
       p_batch_size = 100, p_feature_sampling_window = 2000, p_use_wandb = False,
       p_wandb_log_frequency = 10 \<rparr>"

text \<open>The same run with \<open>checkpoint_every\<close> left at its default, 0.\<close>

definition default_cadence_params :: params where
  "default_cadence_params =
     end_to_end_params\<lparr> p_cfg := end_to_end_cfg\<lparr> checkpoint_every := 0 \<rparr> \<rparr>"

text \<open>The same run with a signal arriving while the first batch is pulled.\<close>

definition interrupted_params :: params where
  "interrupted_params = end_to_end_params\<lparr> p_interrupt := (\<lambda>n. n = 0) \<rparr>"

text \<open>
  A run whose budget of 100 tokens is already used up when it starts: it is handed the
  run state that the checkpoint labelled 100 holds, and the directory with that
  checkpoint's four files.
\<close>

definition exhausted_params :: params where
  "exhausted_params =
     end_to_end_params\<lparr> p_cfg := end_to_end_cfg\<lparr> total_training_tokens := 100, resume := True \<rparr> \<rparr>"

definition stepped_context :: train_context where
  "stepped_context =
     \<lparr> act_freq_scores = [1, 0], n_forward_passes_since_fired = [0, 1],
       n_frac_active_tokens = 100, optimizer = 1, scheduler = 1 \<rparr>"

definition exhausted_run_state :: training_run_state where
  "exhausted_run_state =
     \<lparr> train_contexts = [stepped_context], n_training_steps = 0, n_training_tokens = 100,
       torch_state = Some [1], torch_cuda_state = Some [], numpy_state = Some [2],
       random_state = Some [3] \<rparr>"

definition checkpoint_100_files :: "(string \<times> bool) list" where
  "checkpoint_100_files =
     [(''100_sae_group_gelu-2l_blocks.0.hook_mlp_out_2.pt'', True),
      (''100_sae_group_gelu-2l_blocks.0.hook_mlp_out_2_log_feature_sparsity.pt'', True),
      (''100_sae_group_gelu-2l_blocks.0.hook_mlp_out_2_activation_store.pt'', True),
      (''100_sae_group_gelu-2l_blocks.0.hook_mlp_out_2_trainining_state.pt'', True)]"






text \<open>
  A toy generator for the concrete check of the generator states: the value drawn is
  the sum of the state, and every number of the state moves on by one.
\<close>

definition toy_generator :: "rng \<Rightarrow> nat \<times> rng" where
  "toy_generator st = (sum_list st, map Suc st)"

definition rng_at_checkpoint :: process_rng where
  "rng_at_checkpoint = \<lparr> g_torch = [1, 2], g_cuda = [ [3], [4] ], g_numpy = [5], g_random = [6, 7] \<rparr>"

definition rng_at_restart :: process_rng where
  "rng_at_restart = \<lparr> g_torch = [0], g_cuda = [ [0], [0] ], g_numpy = [0], g_random = [0] \<rparr>"


section \<open>Evaluation rules\<close>

lemmas string_eval =
  py_int_def strip_def is_space_def is_digit_def digit_chars_def digit_value_def
  digits_value_def py_str_def digits_of.simps startswith_def os_path_join_def
  get_base_path_def

lemmas checkpoint_eval =
  save_checkpoint_def write_file_def remove_excess_checkpoints_def
  get_checkpoints_by_step_def SAVE_POSTFIX_SAE_GROUP_def
  SAVE_POSTFIX_LOG_FEATURE_SPARSITY_def SAVE_POSTFIX_ACTIVATION_STORE_def
  SAVE_POSTFIX_TRAINING_STATE_def feature_sparsity_def tensor_div_def

lemmas step_eval =
  train_step_def sparsity_window_def py_mod_def py_floordiv_def did_fire_def
  active_counts_def

lemmas run_eval =
  end_to_end_params_def end_to_end_cfg_def default_config_def unit_sae_def
  first_unit_fires_def

lemma build_unit_sae:
  "build_train_context unit_sae =
     \<lparr> act_freq_scores = [0, 0], n_forward_passes_since_fired = [0, 0],
       n_frac_active_tokens = 0, optimizer = 0, scheduler = 0 \<rparr>"
  by (simp add: build_train_context_def unit_sae_def numeral_2_eq_2)

section \<open>The retention pass and the saves never return\<close>

lemma map_steps_bad_name:
  "c \<in> set cs \<Longrightarrow> py_int (hd (split_underscore c)) = None
     \<Longrightarrow> map_steps cfg cs m = Inl ValueError_invalid_literal"
proof (induction cs arbitrary: m)
  case Nil
  then show ?case by simp
next
  case (Cons a cs)
  show ?case
  proof (cases "py_int (hd (split_underscore a))")
    case None
    then show ?thesis by simp
  next
    case (Some k)
    with Cons.prems have "c \<in> set cs" by auto
    with Cons.IH Cons.prems(2) have "\<And>m. map_steps cfg cs m = Inl ValueError_invalid_literal"
      by blast
    with Some show ?thesis by (simp add: Let_def)
  qed
qed

lemma map_steps_error:
  "map_steps cfg cs m = Inl e \<Longrightarrow> e = ValueError_invalid_literal"
  by (induction cs arbitrary: m) (auto simp add: Let_def split: option.splits if_splits)

lemma remove_excess_checkpoints_raises:
  "\<exists>e. remove_excess_checkpoints cfg dir = Inl e"
  by (simp add: remove_excess_checkpoints_def split: sum.split)

lemma remove_excess_checkpoints_error:
  assumes "remove_excess_checkpoints cfg (Some entries) = Inl e"
  shows "e \<noteq> InterruptedException"
proof (cases "map_steps cfg (map fst (filter snd entries)) []")
  case (Inl e')
  then have "e' = ValueError_invalid_literal" by (rule map_steps_error)
  with Inl assms show ?thesis
    by (simp add: remove_excess_checkpoints_def get_checkpoints_by_step_def)
next
  case (Inr m)
  with assms show ?thesis
    by (auto simp add: remove_excess_checkpoints_def get_checkpoints_by_step_def
          split: if_splits)
qed

lemma write_file_exists: "\<exists>entries. write_file cfg dir p = Some entries"
  by (simp add: write_file_def Let_def split: option.split)

lemma save_checkpoint_raises:
  "\<exists>e d. save_checkpoint cfg dir ctxs name = Inl (e, d) \<and> e \<noteq> InterruptedException"
proof -
  define d3 where "d3 = write_file cfg (write_file cfg (write_file cfg dir
      (get_base_path cfg name @ SAVE_POSTFIX_SAE_GROUP @ ''.pt''))
      (get_base_path cfg name @ SAVE_POSTFIX_LOG_FEATURE_SPARSITY @ ''.pt''))
      (get_base_path cfg name @ SAVE_POSTFIX_ACTIVATION_STORE @ ''.pt'')"
  define d where
    "d = write_file cfg d3 (get_base_path cfg name @ SAVE_POSTFIX_TRAINING_STATE @ ''.pt'')"
  obtain entries where d_some: "d = Some entries"
    unfolding d_def using write_file_exists by blast
  obtain e where e: "remove_excess_checkpoints cfg d = Inl e"
    using remove_excess_checkpoints_raises by blast
  with d_some have "e \<noteq> InterruptedException"
    using remove_excess_checkpoints_error by blast
  moreover from e have "save_checkpoint cfg dir ctxs name = Inl (e, d)"
    by (simp add: save_checkpoint_def Let_def d_def d3_def)
  ultimately show ?thesis by blast
qed

lemma final_save_raises: "\<exists>e l'. final_save P l = Inl (e, l')"
proof -
  obtain e d where "save_checkpoint (p_cfg P) (files l) (l_train_contexts l)
             (StrLabel (''final_'' @ py_str (l_n_training_tokens l))) = Inl (e, d)"
    using save_checkpoint_raises by blast
  then show ?thesis by (simp add: final_save_def)
qed

lemma interrupted_raises_other:
  "fst (interrupted P l) \<noteq> InterruptedException \<and>
   printed (snd (interrupted P l)) = printed l @ [''interrupted, saving progress'']"
proof -
  obtain e d where "save_checkpoint (p_cfg P)
        (files (l\<lparr> printed := printed l @ [''interrupted, saving progress''] \<rparr>))
        (l_train_contexts (l\<lparr> printed := printed l @ [''interrupted, saving progress''] \<rparr>))
        (IntLabel (l_n_training_tokens
            (l\<lparr> printed := printed l @ [''interrupted, saving progress''] \<rparr>))) = Inl (e, d)"
    and "e \<noteq> InterruptedException"
    using save_checkpoint_raises by blast
  then show ?thesis by (simp add: interrupted_def Let_def)
qed

lemma py_int_final: "py_int (hd (split_underscore (''final_'' @ rest))) = None"
  by (simp add: py_int_def strip_def is_space_def is_digit_def digit_chars_def Let_def)

section \<open>The first pass of the loop in the concrete runs\<close>

lemma end_to_end_first_pass:
  "loop_body end_to_end_params
      \<lparr> l_train_contexts =
          [\<lparr> act_freq_scores = [0, 0], n_forward_passes_since_fired = [0, 0],
             n_frac_active_tokens = 0, optimizer = 0, scheduler = 0 \<rparr>],
        l_n_training_steps = 0, l_n_training_tokens = 0,
        l_checkpoint_paths = [], files = Some [], printed = [] \<rparr> =
   Inl (ValueError_unpack,
      \<lparr> l_train_contexts = [stepped_context],
        l_n_training_steps = 0, l_n_training_tokens = 100,
        l_checkpoint_paths = [], files = Some checkpoint_100_files, printed = [] \<rparr>)"
  by (simp add: loop_body_def run_eval Let_def string_eval checkpoint_eval step_eval upt_rec
        stepped_context_def checkpoint_100_files_def)

lemma default_cadence_first_pass:
  "loop_body default_cadence_params
      \<lparr> l_train_contexts =
          [\<lparr> act_freq_scores = [0, 0], n_forward_passes_since_fired = [0, 0],
             n_frac_active_tokens = 0, optimizer = 0, scheduler = 0 \<rparr>],
        l_n_training_steps = 0, l_n_training_tokens = 0,
        l_checkpoint_paths = [], files = Some [], printed = [] \<rparr> =
   Inl (ZeroDivisionError,
      \<lparr> l_train_contexts = [stepped_context],
        l_n_training_steps = 0, l_n_training_tokens = 100,
        l_checkpoint_paths = [], files = Some [], printed = [] \<rparr>)"
  by (simp add: loop_body_def default_cadence_params_def run_eval Let_def step_eval upt_rec
        stepped_context_def)

section \<open>Claims about the loop's checkpoints\<close>

text \<open>
  C2.  The claim: with \<open>checkpoint_every\<close> at its default 0 the periodic checkpoint
  test does not fault and training runs to completion.  The code evaluates
  \<open>n_training_steps % checkpoint_every\<close> at the end of the first pass of the loop, and
  with a zero divisor that raises: the run with budget 1000 and batch size 100 ends in
  \<open>ZeroDivisionError\<close> after its first step, with 100 tokens counted, no checkpoint
  written and nothing returned.
\<close>

theorem checkpoint_every_zero_faults:
  "train_sae_group_on_language_model default_cadence_params None (Some []) =
     Some (Inl (ZeroDivisionError,
       \<lparr> l_train_contexts = [stepped_context],
         l_n_training_steps = 0, l_n_training_tokens = 100,
         l_checkpoint_paths = [], files = Some [], printed = [] \<rparr>))"
proof -
  have P: "p_cfg default_cadence_params = end_to_end_cfg\<lparr> checkpoint_every := 0 \<rparr>"
    "p_saes default_cadence_params = [unit_sae]"
    "p_batch_size default_cadence_params = 100"
    by (simp_all add: default_cadence_params_def end_to_end_params_def)
  have cfg: "total_training_tokens end_to_end_cfg = 1000" "resume end_to_end_cfg = False"
    by (simp_all add: end_to_end_cfg_def default_config_def)
  show ?thesis
    unfolding train_sae_group_on_language_model_def
    by (subst training_loop.simps)
       (simp add: P cfg py_floordiv_def build_unit_sae default_cadence_first_pass)
qed

text \<open>
  C3.  The claim: on a termination signal the loop saves one checkpoint named with the
  current token count, prints "interrupted, saving progress" before and "done saving"
  after the save, and re-raises the interruption.  In the code the save inside the
  \<open>except\<close> clause never returns, whatever the arguments: the exception that leaves the
  clause is never the interruption, and the only line printed is the first.  In the
  run interrupted while its first batch is pulled, the four files labelled 0 are
  written and \<open>ValueError\<close> leaves the function.
\<close>

theorem interrupt_save_raises:
  "fst (interrupted P l) \<noteq> InterruptedException \<and>
   printed (snd (interrupted P l)) = printed l @ [''interrupted, saving progress''] \<and>
   train_sae_group_on_language_model interrupted_params None (Some []) =
     Some (Inl (ValueError_unpack,
       \<lparr> l_train_contexts =
           [\<lparr> act_freq_scores = [0, 0], n_forward_passes_since_fired = [0, 0],
              n_frac_active_tokens = 0, optimizer = 0, scheduler = 0 \<rparr>],
         l_n_training_steps = 0, l_n_training_tokens = 0,
         l_checkpoint_paths = [],
         files = Some
           [(''0_sae_group_gelu-2l_blocks.0.hook_mlp_out_2.pt'', True),
            (''0_sae_group_gelu-2l_blocks.0.hook_mlp_out_2_log_feature_sparsity.pt'', True),
            (''0_sae_group_gelu-2l_blocks.0.hook_mlp_out_2_activation_store.pt'', True),
            (''0_sae_group_gelu-2l_blocks.0.hook_mlp_out_2_trainining_state.pt'', True)],
         printed = [''interrupted, saving progress''] \<rparr>))"
proof -
  have P: "p_cfg interrupted_params = end_to_end_cfg"
    "p_saes interrupted_params = [unit_sae]"
    "p_batch_size interrupted_params = 100"
    "p_interrupt interrupted_params 0"
    by (simp_all add: interrupted_params_def end_to_end_params_def)
  have cfg: "total_training_tokens end_to_end_cfg = 1000" "resume end_to_end_cfg = False"
    by (simp_all add: end_to_end_cfg_def default_config_def)
  have handler:
    "interrupted interrupted_params
       \<lparr> l_train_contexts =
           [\<lparr> act_freq_scores = [0, 0], n_forward_passes_since_fired = [0, 0],
              n_frac_active_tokens = 0, optimizer = 0, scheduler = 0 \<rparr>],
         l_n_training_steps = 0, l_n_training_tokens = 0,
         l_checkpoint_paths = [], files = Some [], printed = [] \<rparr> =
     (ValueError_unpack,
       \<lparr> l_train_contexts =
           [\<lparr> act_freq_scores = [0, 0], n_forward_passes_since_fired = [0, 0],
              n_frac_active_tokens = 0, optimizer = 0, scheduler = 0 \<rparr>],
         l_n_training_steps = 0, l_n_training_tokens = 0,
         l_checkpoint_paths = [],
         files = Some
           [(''0_sae_group_gelu-2l_blocks.0.hook_mlp_out_2.pt'', True),
            (''0_sae_group_gelu-2l_blocks.0.hook_mlp_out_2_log_feature_sparsity.pt'', True),
            (''0_sae_group_gelu-2l_blocks.0.hook_mlp_out_2_activation_store.pt'', True),
            (''0_sae_group_gelu-2l_blocks.0.hook_mlp_out_2_trainining_state.pt'', True)],
         printed = [''interrupted, saving progress''] \<rparr>)"
    by (simp add: interrupted_def P end_to_end_cfg_def default_config_def Let_def
          string_eval checkpoint_eval)
  have run: "train_sae_group_on_language_model interrupted_params None (Some []) =
     Some (Inl (interrupted interrupted_params
       \<lparr> l_train_contexts =
           [\<lparr> act_freq_scores = [0, 0], n_forward_passes_since_fired = [0, 0],
              n_frac_active_tokens = 0, optimizer = 0, scheduler = 0 \<rparr>],
         l_n_training_steps = 0, l_n_training_tokens = 0,
         l_checkpoint_paths = [], files = Some [], printed = [] \<rparr>))"
    unfolding train_sae_group_on_language_model_def
    by (subst training_loop.simps)
       (simp add: P cfg py_floordiv_def build_unit_sae loop_body_def)
  show ?thesis
    using interrupted_raises_other [of P l] by (simp add: run handler)
qed

text \<open>
  C4.  The claim: when the budget is exhausted the function performs the terminal
  checkpoint and returns the group, the locations of every checkpoint of the run and
  the final sparsity snapshot.  In the code the terminal save never returns, so the
  function returns nothing, whatever its arguments.  In the run that starts with its
  budget of 100 tokens used up, the loop is skipped, the four files labelled
  \<open>final_100\<close> are written next to those of checkpoint 100, and the retention pass
  raises \<open>ValueError\<close> on the first of them.
\<close>

theorem terminal_save_never_returns:
  "train_sae_group_on_language_model P run_state dir \<noteq> Some (Inr result) \<and>
   train_sae_group_on_language_model exhausted_params (Some exhausted_run_state)
       (Some checkpoint_100_files) =
     Some (Inl (ValueError_invalid_literal,
       \<lparr> l_train_contexts = [stepped_context],
         l_n_training_steps = 0, l_n_training_tokens = 100,
         l_checkpoint_paths = [],
         files = Some (checkpoint_100_files @
           [(''final_100_sae_group_gelu-2l_blocks.0.hook_mlp_out_2.pt'', True),
            (''final_100_sae_group_gelu-2l_blocks.0.hook_mlp_out_2_log_feature_sparsity.pt'', True),
            (''final_100_sae_group_gelu-2l_blocks.0.hook_mlp_out_2_activation_store.pt'', True),
            (''final_100_sae_group_gelu-2l_blocks.0.hook_mlp_out_2_trainining_state.pt'', True)]),
         printed = [] \<rparr>))"
proof
  show "train_sae_group_on_language_model P run_state dir \<noteq> Some (Inr result)"
  proof
    assume ret: "train_sae_group_on_language_model P run_state dir = Some (Inr result)"
    have "\<And>l. final_save P l \<noteq> Inr result"
      using final_save_raises [of P] by (metis Inl_Inr_False)
    with ret show False
      by (auto simp add: train_sae_group_on_language_model_def Let_def
            split: sum.splits option.splits if_splits prod.splits)
  qed
next
  have P: "p_cfg exhausted_params =
             end_to_end_cfg\<lparr> total_training_tokens := 100, resume := True \<rparr>"
    "p_saes exhausted_params = [unit_sae]"
    "p_batch_size exhausted_params = 100"
    by (simp_all add: exhausted_params_def end_to_end_params_def)
  have final:
    "final_save exhausted_params
       \<lparr> l_train_contexts = [stepped_context],
         l_n_training_steps = 0, l_n_training_tokens = 100,
         l_checkpoint_paths = [], files = Some checkpoint_100_files, printed = [] \<rparr> =
     Inl (ValueError_invalid_literal,
       \<lparr> l_train_contexts = [stepped_context],
         l_n_training_steps = 0, l_n_training_tokens = 100,
         l_checkpoint_paths = [],
         files = Some (checkpoint_100_files @
           [(''final_100_sae_group_gelu-2l_blocks.0.hook_mlp_out_2.pt'', True),
            (''final_100_sae_group_gelu-2l_blocks.0.hook_mlp_out_2_log_feature_sparsity.pt'', True),
            (''final_100_sae_group_gelu-2l_blocks.0.hook_mlp_out_2_activation_store.pt'', True),
            (''final_100_sae_group_gelu-2l_blocks.0.hook_mlp_out_2_trainining_state.pt'', True)]),
         printed = [] \<rparr>)"
    by (simp add: final_save_def P end_to_end_cfg_def default_config_def Let_def
          string_eval checkpoint_eval checkpoint_100_files_def stepped_context_def)
  show "train_sae_group_on_language_model exhausted_params (Some exhausted_run_state)
       (Some checkpoint_100_files) =
     Some (Inl (ValueError_invalid_literal,
       \<lparr> l_train_contexts = [stepped_context],
         l_n_training_steps = 0, l_n_training_tokens = 100,
         l_checkpoint_paths = [],
         files = Some (checkpoint_100_files @
           [(''final_100_sae_group_gelu-2l_blocks.0.hook_mlp_out_2.pt'', True),
            (''final_100_sae_group_gelu-2l_blocks.0.hook_mlp_out_2_log_feature_sparsity.pt'', True),
            (''final_100_sae_group_gelu-2l_blocks.0.hook_mlp_out_2_activation_store.pt'', True),
            (''final_100_sae_group_gelu-2l_blocks.0.hook_mlp_out_2_trainining_state.pt'', True)]),
         printed = [] \<rparr>))"
    unfolding train_sae_group_on_language_model_def
    by (subst training_loop.simps)
       (simp add: P end_to_end_cfg_def default_config_def py_floordiv_def
          exhausted_run_state_def final)
qed

text \<open>
  C5.  The claim: with budget 1000, batch size 100 and \<open>checkpoint_every = 5\<close> the loop
  performs 10 steps, ends with 1000 tokens counted and writes a terminal checkpoint
  labelled 1000.  In the code the checkpoint test holds at step 0, the save labelled
  100 writes its four files, and its retention pass raises \<open>ValueError\<close> when it unpacks
  the dictionary of checkpoints into two names: the run ends in its first pass, with
  100 tokens counted, the step counter still 0 and no terminal checkpoint.
\<close>

theorem end_to_end_run_raises:
  "train_sae_group_on_language_model end_to_end_params None (Some []) =
     Some (Inl (ValueError_unpack,
       \<lparr> l_train_contexts = [stepped_context],
         l_n_training_steps = 0, l_n_training_tokens = 100,
         l_checkpoint_paths = [], files = Some checkpoint_100_files, printed = [] \<rparr>))"
proof -
  have P: "p_cfg end_to_end_params = end_to_end_cfg"
    "p_saes end_to_end_params = [unit_sae]"
    "p_batch_size end_to_end_params = 100"
    by (simp_all add: end_to_end_params_def)
  have cfg: "total_training_tokens end_to_end_cfg = 1000" "resume end_to_end_cfg = False"
    by (simp_all add: end_to_end_cfg_def default_config_def)
  show ?thesis
    unfolding train_sae_group_on_language_model_def
    by (subst training_loop.simps)
       (simp add: P cfg py_floordiv_def build_unit_sae end_to_end_first_pass)
qed

section \<open>Claims about configuration and checkpoint discovery\<close>

text \<open>
  C10.  If the checkpoint directory holds a file whose name does not begin with an
  integer label, \<open>get_checkpoints_by_step\<close> raises the \<open>ValueError\<close> of
  \<open>int(pieces[0])\<close>, and so do the retention pass and the resume discovery.  The files
  of a terminal save, named \<open>final_<tokens>_...\<close>, are such files: every terminal save
  into an existing directory ends in that \<open>ValueError\<close>.
\<close>

theorem non_integer_label_raises:
  assumes "(c, True) \<in> set entries"
    and "py_int (hd (split_underscore c)) = None"
  shows "get_checkpoints_by_step cfg (Some entries) = Inl ValueError_invalid_literal \<and>
         remove_excess_checkpoints cfg (Some entries) = Inl ValueError_invalid_literal \<and>
         get_resume_base_path cfg (Some entries) = Inl ValueError_invalid_literal \<and>
         py_int (hd (split_underscore (''final_'' @ py_str tokens @ rest))) = None \<and>
         (\<exists>dir'. save_checkpoint cfg dir ctxs (StrLabel (''final_'' @ py_str tokens)) =
                   Inl (ValueError_invalid_literal, dir'))"
proof -
  from assms(1) have "c \<in> set (map fst (filter snd entries))" by force
  with assms(2) have steps:
    "get_checkpoints_by_step cfg (Some entries) = Inl ValueError_invalid_literal"
    by (simp add: get_checkpoints_by_step_def map_steps_bad_name)
  have final: "\<And>r. py_int (hd (split_underscore (''final_'' @ r))) = None"
    by (rule py_int_final)
  define name where "name = ''final_'' @ py_str tokens @ ''_'' @ sae_name cfg"
  define d3 where "d3 = write_file cfg (write_file cfg (write_file cfg dir
      (checkpoint_path cfg @ ''/'' @ name @ ''.pt''))
      (checkpoint_path cfg @ ''/'' @ name @ ''_log_feature_sparsity.pt''))
      (checkpoint_path cfg @ ''/'' @ name @ ''_activation_store.pt'')"
  define d4 where
    "d4 = write_file cfg d3 (checkpoint_path cfg @ ''/'' @ name @ ''_trainining_state.pt'')"
  have "\<exists>es. d4 = Some es \<and> (name @ ''_trainining_state.pt'', True) \<in> set es"
    unfolding d4_def by (auto simp add: write_file_def Let_def split: option.split)
  then obtain es where es: "d4 = Some es" "(name @ ''_trainining_state.pt'', True) \<in> set es"
    by blast
  have "py_int (hd (split_underscore (name @ ''_trainining_state.pt''))) = None"
    using final [of "py_str tokens @ ''_'' @ sae_name cfg @ ''_trainining_state.pt''"]
    by (simp add: name_def)
  with es(2) have "map_steps cfg (map fst (filter snd es)) [] = Inl ValueError_invalid_literal"
    by (intro map_steps_bad_name [where c = "name @ ''_trainining_state.pt''"]) force+
  with es(1) have "remove_excess_checkpoints cfg d4 = Inl ValueError_invalid_literal"
    by (simp add: remove_excess_checkpoints_def get_checkpoints_by_step_def)
  then have "save_checkpoint cfg dir ctxs (StrLabel (''final_'' @ py_str tokens)) =
               Inl (ValueError_invalid_literal, d4)"
    by (simp add: save_checkpoint_def Let_def d4_def d3_def name_def get_base_path_def
          SAVE_POSTFIX_SAE_GROUP_def SAVE_POSTFIX_LOG_FEATURE_SPARSITY_def
          SAVE_POSTFIX_ACTIVATION_STORE_def SAVE_POSTFIX_TRAINING_STATE_def)
  with steps final show ?thesis
    by (simp add: remove_excess_checkpoints_def get_resume_base_path_def)
qed

theorem non_integer_label_raises_witness:
  "(''final_1000_sae_group_gelu-2l_blocks.0.hook_mlp_out_2.pt'', True)
     \<in> set (checkpoint_100_files @
              [(''final_1000_sae_group_gelu-2l_blocks.0.hook_mlp_out_2.pt'', True)]) \<and>
   py_int (hd (split_underscore ''final_1000_sae_group_gelu-2l_blocks.0.hook_mlp_out_2.pt''))
     = None \<and>
   get_checkpoints_by_step end_to_end_cfg
     (Some (checkpoint_100_files @
              [(''final_1000_sae_group_gelu-2l_blocks.0.hook_mlp_out_2.pt'', True)]))
     = Inl ValueError_invalid_literal \<and>
   remove_excess_checkpoints end_to_end_cfg
     (Some (checkpoint_100_files @
              [(''final_1000_sae_group_gelu-2l_blocks.0.hook_mlp_out_2.pt'', True)]))
     = Inl ValueError_invalid_literal \<and>
   get_resume_base_path end_to_end_cfg
     (Some (checkpoint_100_files @
              [(''final_1000_sae_group_gelu-2l_blocks.0.hook_mlp_out_2.pt'', True)]))
     = Inl ValueError_invalid_literal"
proof -
  have h1: "(''final_1000_sae_group_gelu-2l_blocks.0.hook_mlp_out_2.pt'', True)
     \<in> set (checkpoint_100_files @
              [(''final_1000_sae_group_gelu-2l_blocks.0.hook_mlp_out_2.pt'', True)])"
    by simp
  have h2: "py_int (hd (split_underscore
              ''final_1000_sae_group_gelu-2l_blocks.0.hook_mlp_out_2.pt'')) = None"
    by (simp add: string_eval)
  show ?thesis
    using non_integer_label_raises [OF h1 h2, of end_to_end_cfg] h1 h2 by simp
qed




section \<open>Claims about the training step\<close>

text \<open>
  C7.  At a step where \<open>(n_training_steps + 1) % feature_sampling_window\<close> is zero, the
  step first reads \<open>feature_sparsity\<close> from the context as it is and then replaces
  \<open>act_freq_scores\<close> by zeros and \<open>n_frac_active_tokens\<close> by 0; the counters
  \<open>n_forward_passes_since_fired\<close>, the optimizer and the scheduler are as before.
\<close>

theorem sparsity_window_reset_frame:
  assumes "fsw \<noteq> 0" and "(n + 1) mod fsw = 0"
  shows "sparsity_window s ctx fsw n =
           Inr (Some (feature_sparsity ctx),
                ctx\<lparr> act_freq_scores := replicate (sae_d_sae s) 0,
                     n_frac_active_tokens := 0 \<rparr>) \<and>
         (\<exists>ctx1. sparsity_window s ctx fsw n = Inr (Some (feature_sparsity ctx), ctx1) \<and>
            act_freq_scores ctx1 = replicate (sae_d_sae s) 0 \<and>
            n_frac_active_tokens ctx1 = 0 \<and>
            n_forward_passes_since_fired ctx1 = n_forward_passes_since_fired ctx \<and>
            optimizer ctx1 = optimizer ctx \<and>
            scheduler ctx1 = scheduler ctx) \<and>
         (\<exists>ctx' out. train_step s forward ctx fsw n batch_size = Inr (ctx', out) \<and>
            window_feature_sparsity out = Some (feature_sparsity ctx) \<and>
            n_frac_active_tokens ctx' = batch_size)"
  using assms
  by (simp add: sparsity_window_def train_step_def py_mod_def Let_def)

theorem sparsity_window_reset_frame_witness:
  "(1999 + 1) mod 2000 = (0::int) \<and> (2000::int) \<noteq> 0 \<and>
   sparsity_window unit_sae stepped_context 2000 1999 =
     Inr (Some [Finite (1 / 100), Finite 0],
          \<lparr> act_freq_scores = [0, 0], n_forward_passes_since_fired = [0, 1],
            n_frac_active_tokens = 0, optimizer = 1, scheduler = 1 \<rparr>)"
proof -
  have h1: "(2000::int) \<noteq> 0" by simp
  have h2: "(1999 + 1) mod 2000 = (0::int)" by simp
  show ?thesis
    using sparsity_window_reset_frame [OF h1 h2, of unit_sae stepped_context]
    by (simp add: stepped_context_def unit_sae_def feature_sparsity_def tensor_div_def
          numeral_2_eq_2)
qed

section \<open>Claim about the generator states\<close>

text \<open>
  C1.  The run state that a checkpoint pickles holds the torch, CUDA, numpy and
  \<open>random\<close> generator states of the moment it is built.  Restoring it with
  \<open>set_random_state\<close> in a process with as many CUDA devices, whatever the generators'
  states are then, succeeds and puts every generator back: any number of consecutive
  draws from each generator, three among them, gives the values it would have given
  at the checkpoint.
\<close>

theorem restored_state_reproduces_draws:
  assumes "length (g_cuda g') = length (g_cuda g)"
  shows "set_random_state (checkpoint_run_state g ctxs steps tokens) g' = Some g \<and>
         (\<exists>restored.
            set_random_state (checkpoint_run_state g ctxs steps tokens) g' = Some restored \<and>
            process_draws next_torch next_cuda next_numpy next_random k restored =
              process_draws next_torch next_cuda next_numpy next_random k g \<and>
            process_draws next_torch next_cuda next_numpy next_random 3 restored =
              process_draws next_torch next_cuda next_numpy next_random 3 g)"
proof -
  have "set_random_state (checkpoint_run_state g ctxs steps tokens) g' = Some g"
    using assms
    by (cases g)
       (simp add: set_random_state_def checkpoint_run_state_def run_state_post_init_def
          set_rng_state_all_def)
  then show ?thesis by simp
qed

theorem restored_state_reproduces_draws_witness:
  "length (g_cuda rng_at_restart) = length (g_cuda rng_at_checkpoint) \<and>
   set_random_state (checkpoint_run_state rng_at_checkpoint [stepped_context] 0 100)
     rng_at_restart = Some rng_at_checkpoint \<and>
   process_draws toy_generator toy_generator toy_generator toy_generator 3 rng_at_checkpoint =
     ([3, 5, 7], [ [3, 4, 5], [4, 5, 6] ], [5, 6, 7], [13, 15, 17])"
proof -
  have h: "length (g_cuda rng_at_restart) = length (g_cuda rng_at_checkpoint)"
    by (simp add: rng_at_restart_def rng_at_checkpoint_def)
  have d: "process_draws toy_generator toy_generator toy_generator toy_generator 3
             rng_at_checkpoint =
           ([3, 5, 7], [ [3, 4, 5], [4, 5, 6] ], [5, 6, 7], [13, 15, 17])"
    by (simp add: process_draws_def toy_generator_def rng_at_checkpoint_def
          numeral_3_eq_3)
  have r: "set_random_state (checkpoint_run_state rng_at_checkpoint [stepped_context] 0 100)
             rng_at_restart = Some rng_at_checkpoint"
    using restored_state_reproduces_draws [OF h] by blast
  from h r d show ?thesis by simp
qed

section \<open>One step and consecutive steps\<close>









section \<open>Claims about dead units and the sparsity denominator\<close>







end
